theory Spec2Isabelle
  imports Main "HOL-Library.Sublist"
begin

section \<open>The profile view: data\<close>

text \<open>
  The view component \<^verbatim>\<open>ProfileView\<close> receives the filter set, the job lists and the
  draft of the add-row as props, and keeps two pieces of state of its own: the delete
  confirmation dialog and the validation errors of the add-row.

  A filter set holds one string per filterable column; the two selects offer the
  values \<^verbatim>\<open>""\<close>, \<^verbatim>\<open>"true"\<close>, \<^verbatim>\<open>"false"\<close> (CL) and \<^verbatim>\<open>""\<close>, \<^verbatim>\<open>"active"\<close>,
  \<^verbatim>\<open>"inactive"\<close> (Status). The column \<^verbatim>\<open>'Applied date'\<close> is written \<open>Applied_date\<close>.
\<close>

record filters =
  Position :: string
  Company :: string
  Phase :: string
  CL :: string
  Status :: string
  Note :: string
  Applied_date :: string

text \<open>
  The fields of a job as the table shows them, which is also the shape of the draft
  \<^verbatim>\<open>newJob\<close>. The text columns hold the value of a text input, a string, so that
  JavaScript's \<^verbatim>\<open>!s\<close> is true exactly for the empty string.
\<close>

record job_fields =
  Position :: string
  Company :: string
  Phase :: string
  CL :: bool
  Status :: bool
  Note :: string
  Applied_date :: string

text \<open>A job of the list carries its identifier, the property \<^verbatim>\<open>_id\<close>.\<close>

record job_record = job_fields +
  job_id :: string

text \<open>The target of a change event of an input: its name, value and checked flag.\<close>

record change_event =
  target_name :: string
  target_value :: string
  target_checked :: bool

text \<open>The value a cell edit passes on: a string or a boolean.\<close>

datatype field_value = Text string | Flag bool

datatype text_field = TPosition | TCompany | TPhase | TNote | TApplied_date

fun field_name :: "text_field \<Rightarrow> string" where
  "field_name TPosition = ''Position''"
| "field_name TCompany = ''Company''"
| "field_name TPhase = ''Phase''"
| "field_name TNote = ''Note''"
| "field_name TApplied_date = ''Applied date''"

text \<open>
  Everything the component does beyond its own state is a call of a handler it was
  given, or of the browser. The calls are logged in the order they are made.
\<close>

datatype call =
    SetFilters filters
  | HandleJobFieldChange string string field_value "string option"
  | HandleUpdateJob "job_record option"
  | HandleDeleteJob string
  | HandleChange change_event
  | SetNewJob job_fields
  | HandleAddJob
  | LocalStorageRemoveItem string
  | SetLocationHref string

record props =
  filters :: filters
  filteredJobs :: "job_record list"
  jobs :: "job_record list"
  newJob :: job_fields

record delete_dialog =
  "open" :: bool
  job :: "job_record option"

record view =
  deleteDialog :: delete_dialog
  addError :: "string \<rightharpoonup> string"
  calls :: "call list"

definition initial_view :: view where
  "initial_view =
     \<lparr>deleteDialog = \<lparr>open = False, job = None\<rparr>, addError = Map.empty, calls = []\<rparr>"

definition emit :: "call \<Rightarrow> view \<Rightarrow> view" where
  "emit c s = s\<lparr>calls := calls s @ [c]\<rparr>"

section \<open>The profile view: handlers\<close>

text \<open>\<^verbatim>\<open>handleNewJobChange\<close>: pass the event on, then blank the error of the named input.\<close>

definition handleNewJobChange :: "change_event \<Rightarrow> view \<Rightarrow> view" where
  "handleNewJobChange e s =
     (let s1 = emit (HandleChange e) s
      in s1\<lparr>addError := (addError s1)(target_name e \<mapsto> '''')\<rparr>)"

text \<open>
  \<^verbatim>\<open>handleAddJobWithValidation\<close>: collect one message per empty required field, store
  the messages, and call \<^verbatim>\<open>handleAddJob\<close> when there is none.
\<close>

definition handleAddJobWithValidation :: "props \<Rightarrow> view \<Rightarrow> view" where
  "handleAddJobWithValidation p s =
     (let errors = Map.empty;
          errors = (if job_fields.Position (newJob p) = []
                    then errors(''Position'' \<mapsto> ''Position is required'') else errors);
          errors = (if job_fields.Company (newJob p) = []
                    then errors(''Company'' \<mapsto> ''Company is required'') else errors);
          errors = (if job_fields.Applied_date (newJob p) = []
                    then errors(''Applied date'' \<mapsto> ''Applied Date is required'') else errors);
          s1 = s\<lparr>addError := errors\<rparr>
      in if dom errors = {} then emit HandleAddJob s1 else s1)"

definition handleLogout :: "view \<Rightarrow> view" where
  "handleLogout s = emit (SetLocationHref ''/users/login'') (emit (LocalStorageRemoveItem ''token'') s)"

definition openDeleteDialog :: "job_record \<Rightarrow> view \<Rightarrow> view" where
  "openDeleteDialog j s = s\<lparr>deleteDialog := \<lparr>open = True, job = Some j\<rparr>\<rparr>"

definition closeDeleteDialog :: "view \<Rightarrow> view" where
  "closeDeleteDialog s = s\<lparr>deleteDialog := \<lparr>open = False, job = None\<rparr>\<rparr>"

definition confirmDelete :: "view \<Rightarrow> view" where
  "confirmDelete s =
     closeDeleteDialog
       (case job (deleteDialog s) of
          Some j \<Rightarrow> emit (HandleDeleteJob (job_id j)) s
        | None \<Rightarrow> s)"

section \<open>The profile view: what each control does\<close>

datatype event =
    FilterTextChange text_field string
  | FilterCLChange string
  | FilterStatusChange string
  | CellTextChange job_record text_field string
  | CellCLChange job_record bool
  | CellStatusChange job_record string
  | ClickEdit job_record
  | ClickDelete job_record
  | NewJobInputChange change_event
  | NewJobStatusChange string
  | ClickAdd
  | ClickLogout
  | DialogClose
  | ClickCancel
  | ClickConfirm

fun set_text_filter :: "text_field \<Rightarrow> string \<Rightarrow> filters \<Rightarrow> filters" where
  "set_text_filter TPosition v fs = fs\<lparr>filters.Position := v\<rparr>"
| "set_text_filter TCompany v fs = fs\<lparr>filters.Company := v\<rparr>"
| "set_text_filter TPhase v fs = fs\<lparr>filters.Phase := v\<rparr>"
| "set_text_filter TNote v fs = fs\<lparr>filters.Note := v\<rparr>"
| "set_text_filter TApplied_date v fs = fs\<lparr>filters.Applied_date := v\<rparr>"

fun step :: "props \<Rightarrow> view \<Rightarrow> event \<Rightarrow> view" where
  "step p s (FilterTextChange f v) = emit (SetFilters (set_text_filter f v (filters p))) s"
| "step p s (FilterCLChange v) = emit (SetFilters ((filters p)\<lparr>filters.CL := v\<rparr>)) s"
| "step p s (FilterStatusChange v) = emit (SetFilters ((filters p)\<lparr>filters.Status := v\<rparr>)) s"
| "step p s (CellTextChange j f v) =
     emit (HandleJobFieldChange (job_id j) (field_name f) (Text v) None) s"
| "step p s (CellCLChange j b) =
     emit (HandleJobFieldChange (job_id j) ''CL'' (Flag b) (Some ''checkbox'')) s"
| "step p s (CellStatusChange j v) =
     emit (HandleJobFieldChange (job_id j) ''Status'' (Flag (v = ''Active'')) (Some ''select'')) s"
| "step p s (ClickEdit j) =
     emit (HandleUpdateJob (find (\<lambda>j'. job_id j' = job_id j) (jobs p))) s"
| "step p s (ClickDelete j) = openDeleteDialog j s"
| "step p s (NewJobInputChange e) = handleNewJobChange e s"
| "step p s (NewJobStatusChange v) =
     emit (SetNewJob ((newJob p)\<lparr>job_fields.Status := (v = ''Active'')\<rparr>)) s"
| "step p s ClickAdd = handleAddJobWithValidation p s"
| "step p s ClickLogout = handleLogout s"
| "step p s DialogClose = closeDeleteDialog s"
| "step p s ClickCancel = closeDeleteDialog s"
| "step p s ClickConfirm = confirmDelete s"

text \<open>A session: the controls used one after the other, each with the props of its render.\<close>

fun run :: "view \<Rightarrow> (props \<times> event) list \<Rightarrow> view" where
  "run s [] = s"
| "run s (pe # pes) = run (step (fst pe) s (snd pe)) pes"

text \<open>
  An input of the add-row shows its error when \<^verbatim>\<open>!!addError[name]\<close> holds: the entry
  is there and is not the empty string.
\<close>

definition error_shown :: "view \<Rightarrow> string \<Rightarrow> bool" where
  "error_shown s k = (case addError s k of None \<Rightarrow> False | Some m \<Rightarrow> m \<noteq> [])"

text \<open>The controls that act on the delete dialog.\<close>

fun touches_dialog :: "event \<Rightarrow> bool" where
  "touches_dialog (ClickDelete j) = True"
| "touches_dialog DialogClose = True"
| "touches_dialog ClickCancel = True"
| "touches_dialog ClickConfirm = True"
| "touches_dialog e = False"

text \<open>
  Two readings of a session, used to say where a delete call comes from. In the first
  the next control that acts on the dialog is the confirm button; in the second the
  delete icon of a job with the given identifier is clicked at some point, and the
  next control that acts on the dialog after it is the confirm button.
\<close>

fun confirms_pending :: "(props \<times> event) list \<Rightarrow> bool" where
  "confirms_pending [] = False"
| "confirms_pending (pe # pes) =
     (snd pe = ClickConfirm \<or> (\<not> touches_dialog (snd pe) \<and> confirms_pending pes))"

fun opened_and_confirmed :: "string \<Rightarrow> (props \<times> event) list \<Rightarrow> bool" where
  "opened_and_confirmed i [] = False"
| "opened_and_confirmed i (pe # pes) =
     ((case snd pe of ClickDelete j \<Rightarrow> job_id j = i \<and> confirms_pending pes | _ \<Rightarrow> False)
      \<or> opened_and_confirmed i pes)"

section \<open>Date normalisation\<close>

text \<open>
  Modelled from the spec: the date normalisation \<^verbatim>\<open>getDateValue\<close>, a function the view
  receives as a prop and whose body is missing from the sources. It turns an accepted
  date (an ISO date-time string, the empty string, or a date already in the form
  YYYY-MM-DD) into the form YYYY-MM-DD, and the empty string into the empty string.
  The date of an ISO string is its first ten characters.
\<close>

definition getDateValue :: "string \<Rightarrow> string" where
  "getDateValue d = (if d = [] then [] else take 10 d)"

text \<open>
  Modelled from the spec: the accepted forms of a date, which the missing
  \<^verbatim>\<open>getDateValue\<close> is specified on. A digit is a character from \<^verbatim>\<open>0\<close> to \<^verbatim>\<open>9\<close>.
\<close>

definition is_digit :: "char \<Rightarrow> bool" where
  "is_digit c = (let n = (of_char c :: nat) in 48 \<le> n \<and> n \<le> 57)"

text \<open>
  Modelled from the spec: the display form YYYY-MM-DD that the missing
  \<^verbatim>\<open>getDateValue\<close> produces: ten characters, digits but for the two dashes.
\<close>

definition is_ymd :: "string \<Rightarrow> bool" where
  "is_ymd d =
     (case d of
        [y1, y2, y3, y4, a, m1, m2, b, d1, d2] \<Rightarrow>
          is_digit y1 \<and> is_digit y2 \<and> is_digit y3 \<and> is_digit y4 \<and> a = CHR ''-''
          \<and> is_digit m1 \<and> is_digit m2 \<and> b = CHR ''-'' \<and> is_digit d1 \<and> is_digit d2
      | _ \<Rightarrow> False)"

text \<open>
  Modelled from the spec: an ISO date-time string as the missing \<^verbatim>\<open>getDateValue\<close>
  accepts it: a date in the form YYYY-MM-DD, a \<^verbatim>\<open>T\<close>, and the time.
\<close>

definition is_iso :: "string \<Rightarrow> bool" where
  "is_iso d = (is_ymd (take 10 d) \<and> take 1 (drop 10 d) = ''T'')"

text \<open>
  Modelled from the spec: the inputs the missing \<^verbatim>\<open>getDateValue\<close> accepts: the empty
  string, a date in the form YYYY-MM-DD, or an ISO date-time string.
\<close>

definition accepted_date :: "string \<Rightarrow> bool" where
  "accepted_date d = (d = [] \<or> is_ymd d \<or> is_iso d)"

section \<open>The filter engine\<close>

text \<open>
  The filtered list \<^verbatim>\<open>filteredJobs\<close> is computed by the parent of the view, which
  is not among the sources; the view only renders it and edits the filter set. The
  engine below follows the written contract of the tracker.

  Modelled from the spec: the case folding of the missing filter engine's text rule
  (case-insensitive containment). Strings are lists of bytes here, and folding maps
  the letters \<^verbatim>\<open>A\<close> to \<^verbatim>\<open>Z\<close> to \<^verbatim>\<open>a\<close> to \<^verbatim>\<open>z\<close> and leaves every other byte as
  it is.
\<close>

definition lower :: "char \<Rightarrow> char" where
  "lower c = (let n = (of_char c :: nat) in if 65 \<le> n \<and> n \<le> 90 then char_of (n + 32) else c)"

text \<open>
  Modelled from the spec: lower-casing a string, for the text rule of the missing
  filter engine.
\<close>

definition toLowerCase :: "string \<Rightarrow> string" where
  "toLowerCase s = map lower s"

text \<open>
  Modelled from the spec: the text rule of the missing filter engine. A text column
  matches when its filter value is empty or, both lower-cased, occurs in the field.
\<close>

definition text_matches :: "string \<Rightarrow> string \<Rightarrow> bool" where
  "text_matches fv v = (fv = [] \<or> sublist (toLowerCase fv) (toLowerCase v))"

text \<open>
  Modelled from the spec: the filter value of the CL column read as a boolean by the
  missing filter engine. The select of the view offers \<^verbatim>\<open>"true"\<close> and \<^verbatim>\<open>"false"\<close>.
\<close>

definition interpret_CL :: "string \<Rightarrow> bool" where
  "interpret_CL fv = (fv = ''true'')"

text \<open>
  Modelled from the spec: the filter value of the Status column read as a boolean by
  the missing filter engine. The select of the view offers \<^verbatim>\<open>"active"\<close> and
  \<^verbatim>\<open>"inactive"\<close>.
\<close>

definition interpret_Status :: "string \<Rightarrow> bool" where
  "interpret_Status fv = (fv = ''active'')"

text \<open>
  Modelled from the spec: the boolean rule of the missing filter engine for the CL
  column: the filter value is empty, or the field equals it read as a boolean.
\<close>

definition CL_matches :: "string \<Rightarrow> bool \<Rightarrow> bool" where
  "CL_matches fv b = (fv = [] \<or> b = interpret_CL fv)"

text \<open>
  Modelled from the spec: the boolean rule of the missing filter engine for the Status
  column.
\<close>

definition Status_matches :: "string \<Rightarrow> bool \<Rightarrow> bool" where
  "Status_matches fv b = (fv = [] \<or> b = interpret_Status fv)"

text \<open>
  Modelled from the spec: the date rule of the missing filter engine: the filter value
  is empty, or the normalised date of the record equals it.
\<close>

definition date_matches :: "string \<Rightarrow> string \<Rightarrow> bool" where
  "date_matches fv d = (fv = [] \<or> getDateValue d = fv)"

text \<open>
  Modelled from the spec: the predicate of the filter engine, missing from the sources.
  A record passes when every column matches.
\<close>

definition passes :: "filters \<Rightarrow> job_record \<Rightarrow> bool" where
  "passes fs r =
     (text_matches (filters.Position fs) (job_fields.Position r)
      \<and> text_matches (filters.Company fs) (job_fields.Company r)
      \<and> text_matches (filters.Phase fs) (job_fields.Phase r)
      \<and> CL_matches (filters.CL fs) (job_fields.CL r)
      \<and> Status_matches (filters.Status fs) (job_fields.Status r)
      \<and> text_matches (filters.Note fs) (job_fields.Note r)
      \<and> date_matches (filters.Applied_date fs) (job_fields.Applied_date r))"

text \<open>
  Modelled from the spec: the filter engine, missing from the sources. The filtered
  view keeps the records of the list that pass.
\<close>

definition filterJobs :: "filters \<Rightarrow> job_record list \<Rightarrow> job_record list" where
  "filterJobs fs js = filter (passes fs) js"

text \<open>The filter set with every field empty.\<close>

definition no_filters :: filters where
  "no_filters =
     \<lparr>filters.Position = [], filters.Company = [], filters.Phase = [], filters.CL = [],
      filters.Status = [], filters.Note = [], filters.Applied_date = []\<rparr>"

section \<open>The store and its update and delete operations\<close>

text \<open>
  The routes of the backend (\<^verbatim>\<open>routes/taskRoutes.js\<close>) are not among the sources; the
  server file only mounts them. The operations below follow the written contract.

  Modelled from the spec: a stored record, the data of the missing routes: the fields
  of a job, the identifier the store assigned and the owner.
\<close>

record JobRecord = job_fields +
  record_id :: string
  ownerId :: string

text \<open>
  Modelled from the spec: the partial fields of an update request to the missing
  routes: each field present or absent.
\<close>

record partial_fields =
  Position :: "string option"
  Company :: "string option"
  Phase :: "string option"
  CL :: "bool option"
  Status :: "bool option"
  Note :: "string option"
  Applied_date :: "string option"

text \<open>Modelled from the spec: the errors the missing routes answer with.\<close>

datatype api_error = ValidationError "string list" | NotFoundError

text \<open>
  Modelled from the spec: the store behind the missing routes, with at most one record
  per identifier.
\<close>

type_synonym store = "string \<rightharpoonup> JobRecord"

text \<open>
  Modelled from the spec: the value of a field after the missing Update: the supplied
  one when the request has it, the old one otherwise.
\<close>

definition supplied :: "'a option \<Rightarrow> 'a \<Rightarrow> 'a" where
  "supplied x old = (case x of Some v \<Rightarrow> v | None \<Rightarrow> old)"

text \<open>
  Modelled from the spec: the merge of the missing Update: the supplied fields are
  written into the record; the identifier and the owner are not among them.
\<close>

definition merge_fields :: "partial_fields \<Rightarrow> JobRecord \<Rightarrow> JobRecord" where
  "merge_fields pf r =
     r\<lparr>job_fields.Position := supplied (partial_fields.Position pf) (job_fields.Position r),
       job_fields.Company := supplied (partial_fields.Company pf) (job_fields.Company r),
       job_fields.Phase := supplied (partial_fields.Phase pf) (job_fields.Phase r),
       job_fields.CL := supplied (partial_fields.CL pf) (job_fields.CL r),
       job_fields.Status := supplied (partial_fields.Status pf) (job_fields.Status r),
       job_fields.Note := supplied (partial_fields.Note pf) (job_fields.Note r),
       job_fields.Applied_date :=
         supplied (partial_fields.Applied_date pf) (job_fields.Applied_date r)\<rparr>"

text \<open>
  Modelled from the spec: the lookup of the missing Update and Delete: the record with
  the given identifier, when the caller owns it.
\<close>

definition owned :: "store \<Rightarrow> string \<Rightarrow> string \<Rightarrow> JobRecord option" where
  "owned st owner i =
     (case st i of
        None \<Rightarrow> None
      | Some r \<Rightarrow> if ownerId r = owner then Some r else None)"

text \<open>
  Modelled from the spec: Update of the CRUD layer, missing from the sources. It fails
  with \<open>NotFoundError\<close> when there is no record with the identifier owned by the caller;
  otherwise it merges the supplied fields into the record, stores it and returns it.
  The result is the store afterwards and the response.
\<close>

definition Update :: "string \<Rightarrow> string \<Rightarrow> partial_fields \<Rightarrow> store \<Rightarrow> store \<times> (api_error + JobRecord)" where
  "Update owner i pf st =
     (case owned st owner i of
        None \<Rightarrow> (st, Inl NotFoundError)
      | Some r \<Rightarrow> (let r' = merge_fields pf r in (st(i \<mapsto> r'), Inr r')))"

text \<open>
  Modelled from the spec: Delete of the CRUD layer, missing from the sources. It fails
  with \<open>NotFoundError\<close> under the same condition; otherwise it removes the record.
  The result is the store afterwards and the response.
\<close>

definition Delete :: "string \<Rightarrow> string \<Rightarrow> store \<Rightarrow> store \<times> (api_error + unit)" where
  "Delete owner i st =
     (case owned st owner i of
        None \<Rightarrow> (st, Inl NotFoundError)
      | Some r \<Rightarrow> (st(i := None), Inr ()))"

section \<open>Sample data\<close>

definition sample_job :: job_record where
  "sample_job =
     \<lparr>job_fields.Position = ''Software Engineer'', job_fields.Company = ''Acme'',
      job_fields.Phase = ''Interview'', job_fields.CL = True, job_fields.Status = True,
      job_fields.Note = ''Call back'', job_fields.Applied_date = ''2024-01-01T00:00:00.000Z'',
      job_id = ''j1''\<rparr>"

definition empty_draft :: job_fields where
  "empty_draft =
     \<lparr>job_fields.Position = [], job_fields.Company = [], job_fields.Phase = [],
      job_fields.CL = False, job_fields.Status = True, job_fields.Note = [],
      job_fields.Applied_date = []\<rparr>"

definition sample_props :: "job_fields \<Rightarrow> props" where
  "sample_props d =
     \<lparr>filters = no_filters, filteredJobs = [sample_job], jobs = [sample_job], newJob = d\<rparr>"

definition sample_stored :: JobRecord where
  "sample_stored =
     \<lparr>job_fields.Position = ''Software Engineer'', job_fields.Company = ''Acme'',
      job_fields.Phase = [], job_fields.CL = False, job_fields.Status = True,
      job_fields.Note = [], job_fields.Applied_date = ''2024-01-01'',
      record_id = ''j1'', ownerId = ''alice''\<rparr>"

definition no_fields :: partial_fields where
  "no_fields =
     \<lparr>partial_fields.Position = None, partial_fields.Company = None,
      partial_fields.Phase = None, partial_fields.CL = None, partial_fields.Status = None,
      partial_fields.Note = None, partial_fields.Applied_date = None\<rparr>"

section \<open>Submitting the add-row\<close>

text \<open>
  C1. Submitting the add-row calls \<^verbatim>\<open>handleAddJob\<close> exactly when Position, Company and
  Applied date of the draft are all non-empty, and calls nothing otherwise; the error
  map it stores has exactly the empty required fields as its keys, each with its
  message.
\<close>

theorem handleAddJobWithValidation_required:
  "calls (handleAddJobWithValidation p s) =
     (if job_fields.Position (newJob p) = [] \<or> job_fields.Company (newJob p) = []
         \<or> job_fields.Applied_date (newJob p) = []
      then calls s else calls s @ [HandleAddJob])
   \<and> dom (addError (handleAddJobWithValidation p s)) =
       (if job_fields.Position (newJob p) = [] then {''Position''} else {})
       \<union> (if job_fields.Company (newJob p) = [] then {''Company''} else {})
       \<union> (if job_fields.Applied_date (newJob p) = [] then {''Applied date''} else {})
   \<and> addError (handleAddJobWithValidation p s) ''Position'' =
       (if job_fields.Position (newJob p) = [] then Some ''Position is required'' else None)
   \<and> addError (handleAddJobWithValidation p s) ''Company'' =
       (if job_fields.Company (newJob p) = [] then Some ''Company is required'' else None)
   \<and> addError (handleAddJobWithValidation p s) ''Applied date'' =
       (if job_fields.Applied_date (newJob p) = [] then Some ''Applied Date is required'' else None)"
  by (auto simp: handleAddJobWithValidation_def emit_def Let_def)

theorem handleAddJobWithValidation_required_witness:
  "calls (handleAddJobWithValidation
       (sample_props (empty_draft\<lparr>job_fields.Company := ''Acme''\<rparr>)) initial_view) = []
   \<and> dom (addError (handleAddJobWithValidation
       (sample_props (empty_draft\<lparr>job_fields.Company := ''Acme''\<rparr>)) initial_view))
     = {''Position'', ''Applied date''}
   \<and> calls (handleAddJobWithValidation
       (sample_props (empty_draft\<lparr>job_fields.Position := ''SWE'', job_fields.Company := ''Acme'',
          job_fields.Applied_date := ''2024-01-01''\<rparr>)) initial_view) = [HandleAddJob]"
  using handleAddJobWithValidation_required
      [of "sample_props (empty_draft\<lparr>job_fields.Company := ''Acme''\<rparr>)" initial_view]
    handleAddJobWithValidation_required
      [of "sample_props (empty_draft\<lparr>job_fields.Position := ''SWE'', job_fields.Company := ''Acme'',
          job_fields.Applied_date := ''2024-01-01''\<rparr>)" initial_view]
  by (auto simp: sample_props_def empty_draft_def initial_view_def)

text \<open>The error map a submission stores, entry by entry.\<close>

lemma addError_handleAddJobWithValidation:
  "addError (handleAddJobWithValidation p s) =
       (\<lambda>k. if k = ''Position'' \<and> job_fields.Position (newJob p) = []
              then Some ''Position is required''
            else if k = ''Company'' \<and> job_fields.Company (newJob p) = []
              then Some ''Company is required''
            else if k = ''Applied date'' \<and> job_fields.Applied_date (newJob p) = []
              then Some ''Applied Date is required''
            else None)"
  by (rule ext) (simp add: handleAddJobWithValidation_def emit_def Let_def)

text \<open>
  C9. A submission stores exactly the errors of the draft it sees: the stored map does
  not depend on the errors shown before, it has an entry for a required field exactly
  when that field is empty, and no input whose required field is filled in shows an
  error afterwards.
\<close>

theorem handleAddJobWithValidation_replaces_errors:
  "addError (handleAddJobWithValidation p s) = addError (handleAddJobWithValidation p s')
   \<and> addError (handleAddJobWithValidation p s) =
       (\<lambda>k. if k = ''Position'' \<and> job_fields.Position (newJob p) = []
              then Some ''Position is required''
            else if k = ''Company'' \<and> job_fields.Company (newJob p) = []
              then Some ''Company is required''
            else if k = ''Applied date'' \<and> job_fields.Applied_date (newJob p) = []
              then Some ''Applied Date is required''
            else None)
   \<and> (job_fields.Position (newJob p) \<noteq> [] \<longrightarrow>
        \<not> error_shown (handleAddJobWithValidation p s) ''Position'')
   \<and> (job_fields.Company (newJob p) \<noteq> [] \<longrightarrow>
        \<not> error_shown (handleAddJobWithValidation p s) ''Company'')
   \<and> (job_fields.Applied_date (newJob p) \<noteq> [] \<longrightarrow>
        \<not> error_shown (handleAddJobWithValidation p s) ''Applied date'')"
  by (simp add: addError_handleAddJobWithValidation error_shown_def)

theorem handleAddJobWithValidation_replaces_errors_witness:
  "error_shown (handleAddJobWithValidation (sample_props empty_draft) initial_view) ''Company''
   \<and> \<not> error_shown
        (handleAddJobWithValidation
          (sample_props (empty_draft\<lparr>job_fields.Company := ''Acme''\<rparr>))
          (handleAddJobWithValidation (sample_props empty_draft) initial_view))
        ''Company''"
proof -
  have shown: "error_shown (handleAddJobWithValidation (sample_props empty_draft) initial_view) ''Company''"
    by (simp add: addError_handleAddJobWithValidation error_shown_def sample_props_def
        empty_draft_def)
  have filled: "job_fields.Company (newJob (sample_props (empty_draft\<lparr>job_fields.Company := ''Acme''\<rparr>))) \<noteq> []"
    by (simp add: sample_props_def empty_draft_def)
  from filled handleAddJobWithValidation_replaces_errors
      [of "sample_props (empty_draft\<lparr>job_fields.Company := ''Acme''\<rparr>)"
          "handleAddJobWithValidation (sample_props empty_draft) initial_view" initial_view]
  have "\<not> error_shown
        (handleAddJobWithValidation
          (sample_props (empty_draft\<lparr>job_fields.Company := ''Acme''\<rparr>))
          (handleAddJobWithValidation (sample_props empty_draft) initial_view))
        ''Company''"
    by blast
  with shown show ?thesis by blast
qed

section \<open>Editing the add-row\<close>

text \<open>
  C8. \<^verbatim>\<open>handleNewJobChange\<close> sets the error entry of the edited input to the empty
  string, whatever the name of the input and whatever the errors before, so that the
  input shows no error; the entries of the other inputs stay as they were, and the
  event is passed on to \<^verbatim>\<open>handleChange\<close>.
\<close>

theorem handleNewJobChange_clears_error:
  "addError (handleNewJobChange e s) (target_name e) = Some []
   \<and> \<not> error_shown (handleNewJobChange e s) (target_name e)
   \<and> (\<forall>k. k \<noteq> target_name e \<longrightarrow> addError (handleNewJobChange e s) k = addError s k)
   \<and> calls (handleNewJobChange e s) = calls s @ [HandleChange e]
   \<and> deleteDialog (handleNewJobChange e s) = deleteDialog s"
  by (simp add: handleNewJobChange_def emit_def error_shown_def)

theorem handleNewJobChange_clears_error_witness:
  "error_shown (handleAddJobWithValidation (sample_props empty_draft) initial_view) ''Position''
   \<and> \<not> error_shown
        (handleNewJobChange
          \<lparr>target_name = ''Position'', target_value = ''S'', target_checked = False\<rparr>
          (handleAddJobWithValidation (sample_props empty_draft) initial_view))
        ''Position''"
proof -
  have shown: "error_shown (handleAddJobWithValidation (sample_props empty_draft) initial_view) ''Position''"
    by (simp add: addError_handleAddJobWithValidation error_shown_def sample_props_def
        empty_draft_def)
  from handleNewJobChange_clears_error
      [of "\<lparr>target_name = ''Position'', target_value = ''S'', target_checked = False\<rparr>"
          "handleAddJobWithValidation (sample_props empty_draft) initial_view"]
  have "\<not> error_shown
        (handleNewJobChange
          \<lparr>target_name = ''Position'', target_value = ''S'', target_checked = False\<rparr>
          (handleAddJobWithValidation (sample_props empty_draft) initial_view))
        (target_name \<lparr>target_name = ''Position'', target_value = ''S'', target_checked = False\<rparr>)"
    by blast
  with shown show ?thesis by simp
qed

section \<open>The delete dialog\<close>

text \<open>
  C10. Confirming while no job is pending calls nothing. After a confirmation, and
  after a cancellation, the dialog is closed with no pending job, whatever the state
  before.
\<close>

theorem confirmDelete_without_job:
  "(job (deleteDialog s) = None \<longrightarrow> calls (confirmDelete s) = calls s)
   \<and> deleteDialog (confirmDelete s) = \<lparr>open = False, job = None\<rparr>
   \<and> deleteDialog (closeDeleteDialog s) = \<lparr>open = False, job = None\<rparr>
   \<and> calls (closeDeleteDialog s) = calls s
   \<and> addError (confirmDelete s) = addError s"
  by (simp add: confirmDelete_def closeDeleteDialog_def emit_def split: option.split)

theorem confirmDelete_without_job_witness:
  "job (deleteDialog initial_view) = None
   \<and> calls (confirmDelete initial_view) = []
   \<and> deleteDialog (confirmDelete initial_view) = \<lparr>open = False, job = None\<rparr>"
proof -
  have none: "job (deleteDialog initial_view) = None" and log: "calls initial_view = []"
    by (simp_all add: initial_view_def)
  from none confirmDelete_without_job [of initial_view]
  have "calls (confirmDelete initial_view) = calls initial_view
    \<and> deleteDialog (confirmDelete initial_view) = \<lparr>open = False, job = None\<rparr>"
    by blast
  with none log show ?thesis by simp
qed

section \<open>Deleting takes two steps\<close>

text \<open>
  What the controls do to the dialog and to the log of calls: the controls outside the
  dialog leave the dialog alone and never call the delete handler; the delete icon
  opens the dialog for its job; closing resets it; confirming calls the delete handler
  for the pending job, when there is one.
\<close>

lemma step_other_dialog:
  "\<not> touches_dialog e \<Longrightarrow> deleteDialog (step p s e) = deleteDialog s"
  by (cases e)
    (simp_all add: emit_def handleNewJobChange_def handleAddJobWithValidation_def
      handleLogout_def Let_def)

lemma step_other_calls:
  "\<not> touches_dialog e \<Longrightarrow>
     (HandleDeleteJob i \<in> set (calls (step p s e))) = (HandleDeleteJob i \<in> set (calls s))"
  by (cases e)
    (simp_all add: emit_def handleNewJobChange_def handleAddJobWithValidation_def
      handleLogout_def Let_def)

lemma openDeleteDialog_effect:
  "deleteDialog (openDeleteDialog j s) = \<lparr>open = True, job = Some j\<rparr>"
  "calls (openDeleteDialog j s) = calls s"
  by (simp_all add: openDeleteDialog_def)

lemma closeDeleteDialog_effect:
  "deleteDialog (closeDeleteDialog s) = \<lparr>open = False, job = None\<rparr>"
  "calls (closeDeleteDialog s) = calls s"
  by (simp_all add: closeDeleteDialog_def)

lemma confirmDelete_effect:
  "deleteDialog (confirmDelete s) = \<lparr>open = False, job = None\<rparr>"
  "calls (confirmDelete s) =
     (case job (deleteDialog s) of
        None \<Rightarrow> calls s
      | Some j \<Rightarrow> calls s @ [HandleDeleteJob (job_id j)])"
  by (simp_all add: confirmDelete_def closeDeleteDialog_def emit_def split: option.split)

lemma confirms_pendingD:
  "confirms_pending pes \<Longrightarrow>
     \<exists>between p after. pes = between @ (p, ClickConfirm) # after
       \<and> (\<forall>pe\<in>set between. \<not> touches_dialog (snd pe))"
proof (induction pes)
  case Nil
  then show ?case by simp
next
  case (Cons pe pes)
  show ?case
  proof (cases "snd pe = ClickConfirm")
    case True
    then have "pe # pes = [] @ (fst pe, ClickConfirm) # pes"
      by (cases pe) simp
    then show ?thesis by fastforce
  next
    case False
    with Cons.prems have quiet: "\<not> touches_dialog (snd pe)" and rest: "confirms_pending pes"
      by simp_all
    from Cons.IH [OF rest] obtain between p after
      where "pes = between @ (p, ClickConfirm) # after"
        and "\<forall>pe\<in>set between. \<not> touches_dialog (snd pe)"
      by blast
    with quiet have "pe # pes = (pe # between) @ (p, ClickConfirm) # after"
      and "\<forall>x\<in>set (pe # between). \<not> touches_dialog (snd x)"
      by simp_all
    then show ?thesis by blast
  qed
qed

lemma opened_and_confirmedD:
  "opened_and_confirmed i pes \<Longrightarrow>
     \<exists>before p1 j between p2 after.
       pes = before @ (p1, ClickDelete j) # between @ (p2, ClickConfirm) # after
       \<and> job_id j = i \<and> (\<forall>pe\<in>set between. \<not> touches_dialog (snd pe))"
proof (induction pes)
  case Nil
  then show ?case by simp
next
  case (Cons pe pes)
  show ?case
  proof (cases "opened_and_confirmed i pes")
    case True
    from Cons.IH [OF True] obtain before p1 j between p2 after
      where "pes = before @ (p1, ClickDelete j) # between @ (p2, ClickConfirm) # after"
        and "job_id j = i" and "\<forall>pe\<in>set between. \<not> touches_dialog (snd pe)"
      by blast
    then have "pe # pes = (pe # before) @ (p1, ClickDelete j) # between @ (p2, ClickConfirm) # after
        \<and> job_id j = i \<and> (\<forall>pe\<in>set between. \<not> touches_dialog (snd pe))"
      by simp
    then show ?thesis by blast
  next
    case False
    with Cons.prems obtain j where e: "snd pe = ClickDelete j" and j: "job_id j = i"
      and rest: "confirms_pending pes"
      by (auto split: event.splits)
    from confirms_pendingD [OF rest] obtain between p2 after
      where "pes = between @ (p2, ClickConfirm) # after"
        and "\<forall>pe\<in>set between. \<not> touches_dialog (snd pe)"
      by blast
    with e j have "pe # pes = [] @ (fst pe, ClickDelete j) # between @ (p2, ClickConfirm) # after
        \<and> job_id j = i \<and> (\<forall>pe\<in>set between. \<not> touches_dialog (snd pe))"
      by (cases pe) simp
    then show ?thesis by blast
  qed
qed

lemma run_delete_origin:
  "HandleDeleteJob i \<in> set (calls (run s pes)) \<Longrightarrow> HandleDeleteJob i \<notin> set (calls s) \<Longrightarrow>
     (\<exists>j. job (deleteDialog s) = Some j \<and> job_id j = i \<and> confirms_pending pes)
     \<or> opened_and_confirmed i pes"
proof (induction pes arbitrary: s)
  case Nil
  then show ?case by simp
next
  case (Cons pe pes)
  obtain p e where pe: "pe = (p, e)" by (cases pe)
  from Cons.prems(1) pe have later: "HandleDeleteJob i \<in> set (calls (run (step p s e) pes))"
    by simp
  show ?case
  proof (cases "touches_dialog e")
    case False
    with Cons.prems(2) have "HandleDeleteJob i \<notin> set (calls (step p s e))"
      by (simp add: step_other_calls)
    from Cons.IH [OF later this] False pe show ?thesis
      by (auto simp: step_other_dialog)
  next
    case True
    then consider (opened) j where "e = ClickDelete j" | (closed) "e = DialogClose \<or> e = ClickCancel"
      | (confirmed) "e = ClickConfirm"
      by (cases e) auto
    then show ?thesis
    proof cases
      case opened
      with Cons.prems(2) have "HandleDeleteJob i \<notin> set (calls (step p s e))"
        by (simp add: openDeleteDialog_effect)
      from Cons.IH [OF later this] opened pe show ?thesis
        by (auto simp: openDeleteDialog_effect)
    next
      case closed
      with Cons.prems(2) have "HandleDeleteJob i \<notin> set (calls (step p s e))"
        by (auto simp: closeDeleteDialog_effect)
      from Cons.IH [OF later this] closed pe show ?thesis
        by (auto simp: closeDeleteDialog_effect)
    next
      case confirmed
      show ?thesis
      proof (cases "\<exists>j. job (deleteDialog s) = Some j \<and> job_id j = i")
        case True
        with confirmed pe show ?thesis by auto
      next
        case False
        with Cons.prems(2) confirmed have "HandleDeleteJob i \<notin> set (calls (step p s e))"
          by (auto simp: confirmDelete_effect split: option.splits)
        from Cons.IH [OF later this] confirmed pe show ?thesis
          by (auto simp: confirmDelete_effect)
      qed
    qed
  qed
qed


text \<open>
  C3. A click on the delete icon of a row calls nothing: it opens the dialog for that
  job. Cancelling and closing the dialog call nothing, and no control but the confirm
  button ever adds a call of the delete handler. In every session that starts from the
  initial state, a call of the delete handler for an identifier comes from a click on
  the delete icon of a job with that identifier, followed by the confirm button with
  no other dialog control in between.
\<close>

theorem delete_needs_confirmation:
  "calls (step p s (ClickDelete j)) = calls s
   \<and> deleteDialog (step p s (ClickDelete j)) = \<lparr>open = True, job = Some j\<rparr>
   \<and> calls (step p s ClickCancel) = calls s
   \<and> calls (step p s DialogClose) = calls s
   \<and> (e \<noteq> ClickConfirm \<longrightarrow>
        (HandleDeleteJob i \<in> set (calls (step p s e))) = (HandleDeleteJob i \<in> set (calls s)))
   \<and> (HandleDeleteJob i \<in> set (calls (run initial_view pes)) \<longrightarrow>
        (\<exists>before p1 j' between p2 after.
           pes = before @ (p1, ClickDelete j') # between @ (p2, ClickConfirm) # after
           \<and> job_id j' = i \<and> (\<forall>pe\<in>set between. \<not> touches_dialog (snd pe))))"
proof -
  have single: "e \<noteq> ClickConfirm \<Longrightarrow>
      (HandleDeleteJob i \<in> set (calls (step p s e))) = (HandleDeleteJob i \<in> set (calls s))"
  proof (cases "touches_dialog e")
    case False
    then show ?thesis by (rule step_other_calls)
  next
    case True
    assume "e \<noteq> ClickConfirm"
    with True show ?thesis
      by (cases e) (simp_all add: openDeleteDialog_effect closeDeleteDialog_effect)
  qed
  have origin: "\<exists>before p1 j' between p2 after.
           pes = before @ (p1, ClickDelete j') # between @ (p2, ClickConfirm) # after
           \<and> job_id j' = i \<and> (\<forall>pe\<in>set between. \<not> touches_dialog (snd pe))"
    if called: "HandleDeleteJob i \<in> set (calls (run initial_view pes))"
  proof -
    have "HandleDeleteJob i \<notin> set (calls initial_view)"
      and "job (deleteDialog initial_view) = None"
      by (simp_all add: initial_view_def)
    with run_delete_origin [OF called] have "opened_and_confirmed i pes"
      by auto
    then show ?thesis by (rule opened_and_confirmedD)
  qed
  from single origin show ?thesis
    by (simp add: openDeleteDialog_effect closeDeleteDialog_effect)
qed

theorem delete_needs_confirmation_witness:
  "HandleDeleteJob ''j1'' \<in> set (calls (run initial_view
      [(sample_props empty_draft, ClickDelete sample_job), (sample_props empty_draft, ClickConfirm)]))
   \<and> (\<exists>before p1 j' between p2 after.
         [(sample_props empty_draft, ClickDelete sample_job), (sample_props empty_draft, ClickConfirm)]
           = before @ (p1, ClickDelete j') # between @ (p2, ClickConfirm) # after
         \<and> job_id j' = ''j1'' \<and> (\<forall>pe\<in>set between. \<not> touches_dialog (snd pe)))
   \<and> calls (run initial_view
      [(sample_props empty_draft, ClickDelete sample_job), (sample_props empty_draft, ClickCancel)]) = []"
proof -
  have called: "HandleDeleteJob ''j1'' \<in> set (calls (run initial_view
      [(sample_props empty_draft, ClickDelete sample_job), (sample_props empty_draft, ClickConfirm)]))"
    by (simp add: initial_view_def openDeleteDialog_def confirmDelete_def closeDeleteDialog_def
        emit_def sample_job_def)
  have cancelled: "calls (run initial_view
      [(sample_props empty_draft, ClickDelete sample_job), (sample_props empty_draft, ClickCancel)]) = []"
    by (simp add: initial_view_def openDeleteDialog_def closeDeleteDialog_def)
  from called delete_needs_confirmation
      [of _ _ _ _ "''j1''"
        "[(sample_props empty_draft, ClickDelete sample_job), (sample_props empty_draft, ClickConfirm)]"]
  have "\<exists>before p1 j' between p2 after.
         [(sample_props empty_draft, ClickDelete sample_job), (sample_props empty_draft, ClickConfirm)]
           = before @ (p1, ClickDelete j') # between @ (p2, ClickConfirm) # after
         \<and> job_id j' = ''j1'' \<and> (\<forall>pe\<in>set between. \<not> touches_dialog (snd pe))"
    by blast
  with called cancelled show ?thesis by blast
qed

section \<open>The filter engine: match rules\<close>

text \<open>A text column matches when it is unconstrained or the field contains the value.\<close>

lemma text_matches_iff:
  "text_matches fv v =
     (fv \<noteq> [] \<longrightarrow> (\<exists>pre suf. toLowerCase v = pre @ toLowerCase fv @ suf))"
  by (auto simp: text_matches_def sublist_def toLowerCase_def)

text \<open>
  C2. A record passes a filter set exactly when every column with a non-empty filter
  value satisfies its rule: for Position, Company, Phase and Note the lower-cased
  field contains the lower-cased filter value; for CL and Status the field equals the
  filter value read as a boolean; for the applied date the normalised date equals the
  filter value. The filtered view holds the records of the list that pass.
\<close>

theorem passes_iff_match_rules:
  "passes fs r =
     ((filters.Position fs \<noteq> [] \<longrightarrow>
         (\<exists>pre suf. toLowerCase (job_fields.Position r)
            = pre @ toLowerCase (filters.Position fs) @ suf))
      \<and> (filters.Company fs \<noteq> [] \<longrightarrow>
         (\<exists>pre suf. toLowerCase (job_fields.Company r)
            = pre @ toLowerCase (filters.Company fs) @ suf))
      \<and> (filters.Phase fs \<noteq> [] \<longrightarrow>
         (\<exists>pre suf. toLowerCase (job_fields.Phase r)
            = pre @ toLowerCase (filters.Phase fs) @ suf))
      \<and> (filters.Note fs \<noteq> [] \<longrightarrow>
         (\<exists>pre suf. toLowerCase (job_fields.Note r)
            = pre @ toLowerCase (filters.Note fs) @ suf))
      \<and> (filters.CL fs \<noteq> [] \<longrightarrow> job_fields.CL r = interpret_CL (filters.CL fs))
      \<and> (filters.Status fs \<noteq> [] \<longrightarrow>
           job_fields.Status r = interpret_Status (filters.Status fs))
      \<and> (filters.Applied_date fs \<noteq> [] \<longrightarrow>
           getDateValue (job_fields.Applied_date r) = filters.Applied_date fs))
   \<and> (r \<in> set (filterJobs fs js)) = (r \<in> set js \<and> passes fs r)"
proof -
  have "(r \<in> set (filterJobs fs js)) = (r \<in> set js \<and> passes fs r)"
    by (simp add: filterJobs_def)
  moreover have "passes fs r =
     ((filters.Position fs \<noteq> [] \<longrightarrow>
         (\<exists>pre suf. toLowerCase (job_fields.Position r)
            = pre @ toLowerCase (filters.Position fs) @ suf))
      \<and> (filters.Company fs \<noteq> [] \<longrightarrow>
         (\<exists>pre suf. toLowerCase (job_fields.Company r)
            = pre @ toLowerCase (filters.Company fs) @ suf))
      \<and> (filters.Phase fs \<noteq> [] \<longrightarrow>
         (\<exists>pre suf. toLowerCase (job_fields.Phase r)
            = pre @ toLowerCase (filters.Phase fs) @ suf))
      \<and> (filters.Note fs \<noteq> [] \<longrightarrow>
         (\<exists>pre suf. toLowerCase (job_fields.Note r)
            = pre @ toLowerCase (filters.Note fs) @ suf))
      \<and> (filters.CL fs \<noteq> [] \<longrightarrow> job_fields.CL r = interpret_CL (filters.CL fs))
      \<and> (filters.Status fs \<noteq> [] \<longrightarrow>
           job_fields.Status r = interpret_Status (filters.Status fs))
      \<and> (filters.Applied_date fs \<noteq> [] \<longrightarrow>
           getDateValue (job_fields.Applied_date r) = filters.Applied_date fs))"
    unfolding passes_def text_matches_iff CL_matches_def Status_matches_def date_matches_def
    by blast
  ultimately show ?thesis by blast
qed

lemma sample_lower:
  "toLowerCase ''Software Engineer'' = ''software engineer''"
  "toLowerCase ''ENG'' = ''eng''"
  by (simp_all add: toLowerCase_def) code_simp+

theorem passes_iff_match_rules_witness:
  "passes (no_filters\<lparr>filters.Position := ''ENG'', filters.CL := ''true'',
      filters.Applied_date := ''2024-01-01''\<rparr>) sample_job
   \<and> \<not> passes (no_filters\<lparr>filters.Status := ''inactive''\<rparr>) sample_job"
proof -
  have "toLowerCase ''Software Engineer'' = ''software '' @ toLowerCase ''ENG'' @ ''ineer''"
    by (simp add: sample_lower)
  then have "\<exists>pre suf. toLowerCase ''Software Engineer'' = pre @ toLowerCase ''ENG'' @ suf"
    by blast
  then show ?thesis
    using passes_iff_match_rules
        [of "no_filters\<lparr>filters.Position := ''ENG'', filters.CL := ''true'',
          filters.Applied_date := ''2024-01-01''\<rparr>" sample_job]
      passes_iff_match_rules [of "no_filters\<lparr>filters.Status := ''inactive''\<rparr>" sample_job]
    by (simp add: no_filters_def sample_job_def interpret_CL_def interpret_Status_def
        getDateValue_def)
qed

text \<open>
  C6. With every field of the filter set empty, the filtered view is the input list.
  For every filter set, filtering a second time changes nothing, and the filtered view
  is a subsequence of the input: the records that pass, in the order of the input.
\<close>

theorem filterJobs_no_constraint:
  "(filters.Position fs = [] \<and> filters.Company fs = [] \<and> filters.Phase fs = []
      \<and> filters.CL fs = [] \<and> filters.Status fs = [] \<and> filters.Note fs = []
      \<and> filters.Applied_date fs = [] \<longrightarrow> filterJobs fs js = js)
   \<and> filterJobs fs (filterJobs fs js) = filterJobs fs js
   \<and> subseq (filterJobs fs js) js"
proof -
  have "filterJobs fs js = js"
    if "filters.Position fs = [] \<and> filters.Company fs = [] \<and> filters.Phase fs = []
      \<and> filters.CL fs = [] \<and> filters.Status fs = [] \<and> filters.Note fs = []
      \<and> filters.Applied_date fs = []"
  proof -
    from that have "passes fs r" for r
      by (simp add: passes_def text_matches_def CL_matches_def Status_matches_def
          date_matches_def)
    then show ?thesis by (simp add: filterJobs_def)
  qed
  moreover have "filterJobs fs (filterJobs fs js) = filterJobs fs js"
    by (simp add: filterJobs_def)
  moreover have "subseq (filterJobs fs js) js"
    by (simp add: filterJobs_def)
  ultimately show ?thesis by blast
qed

theorem filterJobs_no_constraint_witness:
  "filterJobs no_filters [sample_job, sample_job\<lparr>job_id := ''j2''\<rparr>]
     = [sample_job, sample_job\<lparr>job_id := ''j2''\<rparr>]"
proof -
  have "filters.Position no_filters = [] \<and> filters.Company no_filters = []
      \<and> filters.Phase no_filters = [] \<and> filters.CL no_filters = []
      \<and> filters.Status no_filters = [] \<and> filters.Note no_filters = []
      \<and> filters.Applied_date no_filters = []"
    by (simp add: no_filters_def)
  with filterJobs_no_constraint [of no_filters "[sample_job, sample_job\<lparr>job_id := ''j2''\<rparr>]"]
  show ?thesis by blast
qed

section \<open>Date normalisation: idempotence\<close>

lemma is_ymd_length: "is_ymd d \<Longrightarrow> length d = 10"
  by (auto simp: is_ymd_def split: list.splits)

text \<open>
  C7. Normalising a date twice gives what normalising it once gives, and the empty
  string is normalised to the empty string. A date already in the form YYYY-MM-DD is
  left as it is, and every accepted date other than the empty string is normalised to
  that form.
\<close>

theorem getDateValue_idempotent:
  "getDateValue [] = []
   \<and> getDateValue (getDateValue d) = getDateValue d
   \<and> (is_ymd d \<longrightarrow> getDateValue d = d)
   \<and> (accepted_date d \<longrightarrow> d \<noteq> [] \<longrightarrow> is_ymd (getDateValue d))"
proof -
  have "getDateValue (getDateValue d) = getDateValue d"
    by (simp add: getDateValue_def)
  moreover have same: "getDateValue d = d" if "is_ymd d"
    using is_ymd_length [OF that] by (simp add: getDateValue_def)
  moreover have "is_ymd (getDateValue d)" if "accepted_date d" "d \<noteq> []"
  proof -
    from that consider "is_ymd d" | "is_iso d"
      by (auto simp: accepted_date_def)
    then show ?thesis
    proof cases
      case 1
      with same show ?thesis by simp
    next
      case 2
      with that(2) show ?thesis by (simp add: is_iso_def getDateValue_def)
    qed
  qed
  ultimately show ?thesis by (simp add: getDateValue_def)
qed

lemma sample_dates:
  "is_ymd ''2024-01-01''"
  "is_iso ''2024-01-01T00:00:00.000Z''"
  by (simp_all add: is_iso_def is_ymd_def is_digit_def)

theorem getDateValue_idempotent_witness:
  "getDateValue ''2024-01-01T00:00:00.000Z'' = ''2024-01-01''
   \<and> getDateValue (getDateValue ''2024-01-01T00:00:00.000Z'')
       = getDateValue ''2024-01-01T00:00:00.000Z''
   \<and> is_ymd (getDateValue ''2024-01-01T00:00:00.000Z'')
   \<and> getDateValue ''2024-01-01'' = ''2024-01-01''"
proof -
  have "accepted_date ''2024-01-01T00:00:00.000Z''"
    by (simp add: accepted_date_def sample_dates)
  with getDateValue_idempotent [of "''2024-01-01T00:00:00.000Z''"]
  have "getDateValue (getDateValue ''2024-01-01T00:00:00.000Z'')
       = getDateValue ''2024-01-01T00:00:00.000Z''
    \<and> is_ymd (getDateValue ''2024-01-01T00:00:00.000Z'')"
    by simp
  moreover from sample_dates(1) getDateValue_idempotent [of "''2024-01-01''"]
  have "getDateValue ''2024-01-01'' = ''2024-01-01''"
    by blast
  moreover have "getDateValue ''2024-01-01T00:00:00.000Z'' = ''2024-01-01''"
    by (simp add: getDateValue_def)
  ultimately show ?thesis by blast
qed

section \<open>Update and delete on the store\<close>

text \<open>The caller owns no record with the identifier: there is none, or it is another's.\<close>

lemma owned_None:
  "(owned st owner i = None) = (st i = None \<or> (\<exists>r. st i = Some r \<and> ownerId r \<noteq> owner))"
  by (simp add: owned_def split: option.split)

text \<open>
  C4. When the store has no record with the identifier, or has one owned by another
  user, Update and Delete answer \<open>NotFoundError\<close> and the store afterwards is the
  store before.
\<close>

theorem Update_Delete_not_found:
  "st i = None \<or> (\<exists>r. st i = Some r \<and> ownerId r \<noteq> owner) \<Longrightarrow>
     Update owner i pf st = (st, Inl NotFoundError)
     \<and> Delete owner i st = (st, Inl NotFoundError)"
  by (simp add: owned_None [symmetric] Update_def Delete_def)

theorem Update_Delete_not_found_witness:
  "Update ''alice'' ''j2'' (no_fields\<lparr>partial_fields.Status := Some False\<rparr>)
       [''j1'' \<mapsto> sample_stored]
     = ([''j1'' \<mapsto> sample_stored], Inl NotFoundError)
   \<and> Delete ''bob'' ''j1'' [''j1'' \<mapsto> sample_stored]
     = ([''j1'' \<mapsto> sample_stored], Inl NotFoundError)"
proof -
  have missing: "[''j1'' \<mapsto> sample_stored] ''j2'' = None
      \<or> (\<exists>r. [''j1'' \<mapsto> sample_stored] ''j2'' = Some r \<and> ownerId r \<noteq> ''alice'')"
    by simp
  have foreign: "[''j1'' \<mapsto> sample_stored] ''j1'' = None
      \<or> (\<exists>r. [''j1'' \<mapsto> sample_stored] ''j1'' = Some r \<and> ownerId r \<noteq> ''bob'')"
    by (simp add: sample_stored_def)
  from missing
    Update_Delete_not_found [where st = "[''j1'' \<mapsto> sample_stored]" and i = "''j2''"
      and owner = "''alice''" and pf = "no_fields\<lparr>partial_fields.Status := Some False\<rparr>"]
  have "Update ''alice'' ''j2'' (no_fields\<lparr>partial_fields.Status := Some False\<rparr>)
       [''j1'' \<mapsto> sample_stored]
     = ([''j1'' \<mapsto> sample_stored], Inl NotFoundError)"
    by blast
  moreover from foreign
    Update_Delete_not_found [where st = "[''j1'' \<mapsto> sample_stored]" and i = "''j1''"
      and owner = "''bob''" and pf = no_fields]
  have "Delete ''bob'' ''j1'' [''j1'' \<mapsto> sample_stored]
     = ([''j1'' \<mapsto> sample_stored], Inl NotFoundError)"
    by blast
  ultimately show ?thesis by blast
qed

text \<open>
  C5. An Update of a record the caller owns stores and returns a record in which every
  supplied field has the supplied value and every other field, the identifier and the
  owner included, has the value it had; the other records of the store stay as they
  were.
\<close>

theorem Update_merges_supplied:
  "st i = Some r \<Longrightarrow> ownerId r = owner \<Longrightarrow>
     (\<exists>r'. Update owner i pf st = (st(i \<mapsto> r'), Inr r')
        \<and> record_id r' = record_id r \<and> ownerId r' = ownerId r
        \<and> job_fields.Position r' =
            (case partial_fields.Position pf of Some v \<Rightarrow> v | None \<Rightarrow> job_fields.Position r)
        \<and> job_fields.Company r' =
            (case partial_fields.Company pf of Some v \<Rightarrow> v | None \<Rightarrow> job_fields.Company r)
        \<and> job_fields.Phase r' =
            (case partial_fields.Phase pf of Some v \<Rightarrow> v | None \<Rightarrow> job_fields.Phase r)
        \<and> job_fields.CL r' =
            (case partial_fields.CL pf of Some v \<Rightarrow> v | None \<Rightarrow> job_fields.CL r)
        \<and> job_fields.Status r' =
            (case partial_fields.Status pf of Some v \<Rightarrow> v | None \<Rightarrow> job_fields.Status r)
        \<and> job_fields.Note r' =
            (case partial_fields.Note pf of Some v \<Rightarrow> v | None \<Rightarrow> job_fields.Note r)
        \<and> job_fields.Applied_date r' =
            (case partial_fields.Applied_date pf of Some v \<Rightarrow> v
             | None \<Rightarrow> job_fields.Applied_date r))"
  by (simp add: Update_def owned_def merge_fields_def supplied_def Let_def)

theorem Update_merges_supplied_witness:
  "Update ''alice'' ''j1'' (no_fields\<lparr>partial_fields.Status := Some False\<rparr>)
       [''j1'' \<mapsto> sample_stored]
     = ([''j1'' \<mapsto> sample_stored\<lparr>job_fields.Status := False\<rparr>],
        Inr (sample_stored\<lparr>job_fields.Status := False\<rparr>))"
proof -
  have there: "[''j1'' \<mapsto> sample_stored] ''j1'' = Some sample_stored"
    and mine: "ownerId sample_stored = ''alice''"
    by (simp_all add: sample_stored_def)
  from there mine
    Update_merges_supplied [where st = "[''j1'' \<mapsto> sample_stored]" and i = "''j1''"
      and r = sample_stored and owner = "''alice''"
      and pf = "no_fields\<lparr>partial_fields.Status := Some False\<rparr>"]
  obtain r' where upd: "Update ''alice'' ''j1'' (no_fields\<lparr>partial_fields.Status := Some False\<rparr>)
       [''j1'' \<mapsto> sample_stored] = ([''j1'' \<mapsto> sample_stored, ''j1'' \<mapsto> r'], Inr r')"
    and fields: "record_id r' = record_id sample_stored" "ownerId r' = ownerId sample_stored"
      "job_fields.Position r' = job_fields.Position sample_stored"
      "job_fields.Company r' = job_fields.Company sample_stored"
      "job_fields.Phase r' = job_fields.Phase sample_stored"
      "job_fields.CL r' = job_fields.CL sample_stored"
      "job_fields.Status r' = False"
      "job_fields.Note r' = job_fields.Note sample_stored"
      "job_fields.Applied_date r' = job_fields.Applied_date sample_stored"
    by (auto simp: no_fields_def)
  from fields have "r' = sample_stored\<lparr>job_fields.Status := False\<rparr>"
    by (simp add: sample_stored_def)
  with upd show ?thesis by simp
qed

end
